theory Spec2Isabelle
  imports Complex_Main "HOL-Library.Word" "HOL-Library.Sublist"
begin

section \<open>Data model of \<open>src/index.ts\<close>\<close>

text \<open>
  The server is one TypeScript file. Its own code loads two PNG files, checks that the
  dimensions agree, hands the pixel buffers to the \<open>pixelmatch\<close> library, computes the
  percentage and either writes the diff image or returns it base64-encoded. The request
  handler wraps that pipeline. Decoding, encoding and pixel comparison are done by the
  libraries \<open>pngjs\<close> and \<open>pixelmatch\<close>, which are not part of the repository: they are
  parameters of the model (record \<open>libs\<close>).
\<close>

type_synonym byte = "8 word"
type_synonym buffer = "byte list"

text \<open>The fields of a \<open>PNG\<close> object that the program reads.\<close>

record PNG =
  width :: nat
  height :: nat
  data :: buffer

text \<open>
  JavaScript numbers that the program computes by division and multiplication: IEEE-754
  doubles that are not negative, \<open>NaN\<close> and \<open>Infinity\<close>. A finite double is kept as the
  real number it denotes. A division by zero is not an error but gives \<open>NaN\<close> or
  \<open>Infinity\<close>, and every operation rounds its exact result to the nearest double.
\<close>

datatype jsnum = Finite real | NaN | Infinity

text \<open>The integer nearest to \<open>x\<close>; of two equally near, the even one.\<close>

definition round_even :: "real \<Rightarrow> int" where
  "round_even x =
     (let f = \<lfloor>x\<rfloor>; d = x - of_int f
      in if d < 1 / 2 then f else if 1 / 2 < d then f + 1 else if even f then f else f + 1)"

definition pow2 :: "int \<Rightarrow> real" where
  "pow2 e = (if 0 \<le> e then 2 ^ nat e else 1 / 2 ^ nat (- e))"

text \<open>
  \<open>normalize fuel m e\<close> keeps \<open>m * 2\<^sup>e\<close> and moves \<open>m\<close> into the range of a 53-bit
  significand, \<open>2\<^sup>5\<^sup>2 \<le> m < 2\<^sup>5\<^sup>3\<close>, stopping at the least exponent of a double, \<open>-1074\<close>
  (below it the significand is shorter: the subnormal numbers).
\<close>

function normalize :: "nat \<Rightarrow> real \<Rightarrow> int \<Rightarrow> real \<times> int" where
  "normalize fuel m e =
     (if fuel = 0 then (m, e)
      else if 2 ^ 53 \<le> m then normalize (fuel - 1) (m / 2) (e + 1)
      else if m < 2 ^ 52 \<and> - 1074 < e then normalize (fuel - 1) (m * 2) (e - 1)
      else (m, e))"
  by pat_completeness auto
termination
  by (relation "measure (\<lambda>(fuel, m, e). fuel)") auto

declare normalize.simps [simp del]

text \<open>
  The double nearest to a real number \<open>x \<ge> 0\<close>, ties to the even significand; a result
  of \<open>2\<^sup>1\<^sup>0\<^sup>2\<^sup>4\<close> or more is \<open>Infinity\<close>. 1100 steps reach every exponent of a double, and a
  number too large to be reached is \<open>Infinity\<close> all the same.
\<close>

definition to_double :: "real \<Rightarrow> jsnum" where
  "to_double x =
     (if x = 0 then Finite 0
      else
        let (m, e) = normalize 1100 x 0;
            y = of_int (round_even m) * pow2 e
        in if 2 ^ 1024 \<le> y then Infinity else Finite y)"

text \<open>\<open>a / b\<close> for two non-negative integers.\<close>

definition js_div :: "nat \<Rightarrow> nat \<Rightarrow> jsnum" where
  "js_div a b =
     (if b = 0 then (if a = 0 then NaN else Infinity)
      else to_double (real a / real b))"

text \<open>\<open>x * c\<close> for a positive finite constant \<open>c\<close>.\<close>

fun js_times :: "jsnum \<Rightarrow> real \<Rightarrow> jsnum" where
  "js_times (Finite x) c = to_double (x * c)"
| "js_times NaN c = NaN"
| "js_times Infinity c = Infinity"

text \<open>
  \<open>interface CompareResult\<close>: three metrics and the optional \<open>diffImageBase64\<close>.
  The interface has no field for a path.
\<close>

record CompareResult =
  totalPixels :: nat
  differentPixels :: nat
  differencePercentage :: jsnum
  diffImageBase64 :: "string option"

text \<open>The property names of the object that \<open>compareScreenshots\<close> returns.\<close>

definition result_keys :: "CompareResult \<Rightarrow> string list" where
  "result_keys r =
     [''totalPixels'', ''differentPixels'', ''differencePercentage''] @
     (case diffImageBase64 r of None \<Rightarrow> [] | Some _ \<Rightarrow> [''diffImageBase64''])"

subsection \<open>Errors\<close>

text \<open>
  Every exception of the program is a value. \<open>SystemError\<close> is a rejection of an
  \<open>fs\<close> call (error code and path), \<open>LibraryError\<close> an exception thrown inside
  \<open>pngjs\<close> or \<open>pixelmatch\<close> (its message), \<open>TypeError\<close> the run-time's own, and
  \<open>Error\<close> an error that the program itself creates with \<open>new Error(msg)\<close>.
\<close>

datatype errno = ENOENT | EACCES

datatype error =
    SystemError errno string
  | LibraryError string
  | TypeError string
  | Error string

fun errno_name :: "errno \<Rightarrow> string" where
  "errno_name ENOENT = ''ENOENT''"
| "errno_name EACCES = ''EACCES''"

fun errno_text :: "errno \<Rightarrow> string" where
  "errno_text ENOENT = ''no such file or directory''"
| "errno_text EACCES = ''permission denied''"

text \<open>\<open>error.message\<close>; a system error reads \<open>CODE: text, open 'path'\<close>.\<close>

fun message :: "error \<Rightarrow> string" where
  "message (SystemError c p) =
     errno_name c @ '': '' @ errno_text c @ '', open '' @ [CHR 0x27] @ p @ [CHR 0x27]"
| "message (LibraryError m) = m"
| "message (TypeError m) = m"
| "message (Error m) = m"

subsection \<open>The file system\<close>

text \<open>
  The files that exist, with their content, and the paths that cannot be written.
\<close>

record filesystem =
  files :: "string \<rightharpoonup> buffer"
  denied :: "string set"

text \<open>\<open>fs.readFile(path)\<close>\<close>

definition readFile :: "filesystem \<Rightarrow> string \<Rightarrow> error + buffer" where
  "readFile fs p =
     (case files fs p of
        None \<Rightarrow> Inl (SystemError ENOENT p)
      | Some d \<Rightarrow> Inr d)"

text \<open>\<open>fs.writeFile(path, data)\<close>\<close>

definition writeFile :: "filesystem \<Rightarrow> string \<Rightarrow> buffer \<Rightarrow> error + filesystem" where
  "writeFile fs p d =
     (if p \<in> denied fs then Inl (SystemError EACCES p)
      else Inr (fs\<lparr>files := (files fs)(p \<mapsto> d)\<rparr>))"

subsection \<open>The libraries and the host\<close>

text \<open>
  What the program imports and calls. A library call that throws returns \<open>Inl\<close> with the
  message. \<open>pixelmatch img1 img2 output width height threshold\<close> returns the number of
  mismatched pixels and the content of \<open>output\<close> after the call (the library fills it
  in place).
\<close>

record libs =
  PNG_sync_read :: "buffer \<Rightarrow> string + PNG"
  PNG_sync_write :: "PNG \<Rightarrow> string + buffer"
  pixelmatch :: "buffer \<Rightarrow> buffer \<Rightarrow> buffer \<Rightarrow> nat \<Rightarrow> nat \<Rightarrow> real \<Rightarrow> string + (nat \<times> buffer)"
  toLocaleString :: "nat \<Rightarrow> string"

text \<open>\<open>new PNG({ width, height })\<close>: a zero-filled buffer of four bytes per pixel.\<close>

definition new_PNG :: "nat \<Rightarrow> nat \<Rightarrow> PNG" where
  "new_PNG w h = \<lparr>width = w, height = h, data = replicate (4 * w * h) 0\<rparr>"

subsection \<open>Numbers and bytes as text\<close>

definition digit_char :: "nat \<Rightarrow> char" where
  "digit_char d = ''0123456789'' ! (d mod 10)"

text \<open>A non-negative integer inside a template literal: its decimal digits.\<close>

function show_nat :: "nat \<Rightarrow> string" where
  "show_nat n =
     (if n < 10 then [digit_char n] else show_nat (n div 10) @ [digit_char n])"
  by pat_completeness auto
termination
  by (relation "measure id") auto

declare show_nat.simps [simp del]

text \<open>\<open>x.toFixed(2)\<close> for a value that is not negative.\<close>

fun toFixed2 :: "jsnum \<Rightarrow> string" where
  "toFixed2 (Finite x) =
     (let n = nat \<lfloor>x * 100 + 1 / 2\<rfloor>
      in show_nat (n div 100) @ ''.'' @ [digit_char (n div 10), digit_char n])"
| "toFixed2 NaN = ''NaN''"
| "toFixed2 Infinity = ''Infinity''"

text \<open>\<open>buffer.toString("base64")\<close>: three bytes give four characters, with padding.\<close>

definition b64_char :: "nat \<Rightarrow> char" where
  "b64_char n =
     ''ABCDEFGHIJKLMNOPQRSTUVWXYZabcdefghijklmnopqrstuvwxyz0123456789+/'' ! (n mod 64)"

fun toString_base64 :: "buffer \<Rightarrow> string" where
  "toString_base64 (a # b # c # rest) =
     (let n = unat a * 65536 + unat b * 256 + unat c
      in [b64_char (n div 262144), b64_char (n div 4096), b64_char (n div 64), b64_char n])
     @ toString_base64 rest"
| "toString_base64 [a, b] =
     (let n = unat a * 65536 + unat b * 256
      in [b64_char (n div 262144), b64_char (n div 4096), b64_char (n div 64), CHR ''=''])"
| "toString_base64 [a] =
     (let n = unat a * 65536
      in [b64_char (n div 262144), b64_char (n div 4096), CHR ''='', CHR ''=''])"
| "toString_base64 [] = []"

section \<open>The program\<close>

text \<open>\<open>loadPNG\<close>: read the file, decode it. Both exceptions propagate unchanged.\<close>

definition loadPNG :: "libs \<Rightarrow> filesystem \<Rightarrow> string \<Rightarrow> error + PNG" where
  "loadPNG L fs filePath =
     (case readFile fs filePath of
        Inl e \<Rightarrow> Inl e
      | Inr d \<Rightarrow>
          (case PNG_sync_read L d of
             Inl m \<Rightarrow> Inl (LibraryError m)
           | Inr png \<Rightarrow> Inr png))"

text \<open>The message of the error thrown when the dimensions differ.\<close>

definition dimension_message :: "PNG \<Rightarrow> PNG \<Rightarrow> string" where
  "dimension_message design implementation =
     ''Image dimensions don't match: design ('' @
     show_nat (width design) @ ''x'' @ show_nat (height design) @
     '') vs implementation ('' @
     show_nat (width implementation) @ ''x'' @ show_nat (height implementation) @ '')''"

text \<open>
  \<open>compareScreenshots\<close>. The result is the value returned or the exception thrown, and
  the file system after the call. The parameter \<open>threshold\<close> (here \<open>thr\<close>, its value
  \<open>t\<close>) defaults to \<open>0.1\<close>. \<open>PNG.sync.write(diff)\<close> is called first in both branches of
  \<open>if (outputDiffPath)\<close>, a test that is false for \<open>undefined\<close> and for \<open>""\<close>.
  The product \<open>width * height\<close> is kept exact: a raster whose buffer of
  \<open>4 * width * height\<close> bytes exists has a product far below \<open>2\<^sup>5\<^sup>3\<close>, where the
  multiplication of doubles is exact.
\<close>

definition compareScreenshots ::
  "libs \<Rightarrow> filesystem \<Rightarrow> string \<Rightarrow> string \<Rightarrow> string option \<Rightarrow> real option
     \<Rightarrow> (error + CompareResult) \<times> filesystem" where
  "compareScreenshots L fs designPath implementationPath outputDiffPath thr =
     (let t = (case thr of None \<Rightarrow> 0.1 | Some v \<Rightarrow> v) in
      case loadPNG L fs designPath of
        Inl e \<Rightarrow> (Inl e, fs)
      | Inr design \<Rightarrow>
      (case loadPNG L fs implementationPath of
        Inl e \<Rightarrow> (Inl e, fs)
      | Inr implementation \<Rightarrow>
      if width design \<noteq> width implementation \<or> height design \<noteq> height implementation
      then (Inl (Error (dimension_message design implementation)), fs)
      else
        let diff = new_PNG (width design) (height design) in
        (case pixelmatch L (data design) (data implementation) (data diff)
                (width design) (height design) t of
           Inl m \<Rightarrow> (Inl (LibraryError m), fs)
         | Inr (different, filled) \<Rightarrow>
             let diff = diff\<lparr>data := filled\<rparr>;
                 total = width design * height design;
                 percentage = js_times (js_div different total) 100;
                 result = \<lparr>totalPixels = total,
                           differentPixels = different,
                           differencePercentage = percentage,
                           diffImageBase64 = None\<rparr>
             in
             (case PNG_sync_write L diff of
                Inl m \<Rightarrow> (Inl (LibraryError m), fs)
              | Inr buffer \<Rightarrow>
                  (case outputDiffPath of
                     Some p \<Rightarrow>
                       if p \<noteq> [] then
                         (case writeFile fs p buffer of
                            Inl e \<Rightarrow> (Inl e, fs)
                          | Inr fs' \<Rightarrow> (Inr result, fs'))
                       else
                         (Inr (result\<lparr>diffImageBase64 := Some (toString_base64 buffer)\<rparr>), fs)
                   | None \<Rightarrow>
                       (Inr (result\<lparr>diffImageBase64 := Some (toString_base64 buffer)\<rparr>), fs))))))"

subsection \<open>The handler of tool calls\<close>

text \<open>\<open>request.params\<close>: the tool name and the arguments, which a request may omit.\<close>

record arguments =
  design_path :: string
  implementation_path :: string
  output_diff_path :: "string option"
  threshold :: "real option"

record request =
  name :: string
  arguments :: "arguments option"

datatype content = TextContent string | ImageContent string string

text \<open>The reply; \<open>isError\<close> is false where the reply has no such field.\<close>

record response =
  content :: "content list"
  isError :: bool

definition responseText :: "libs \<Rightarrow> CompareResult \<Rightarrow> string option \<Rightarrow> string" where
  "responseText L result outputDiffPath =
     ''Design Comparison Results:'' @ [CHR 0x0A, CHR 0x0A] @
     ''Total Pixels: '' @ toLocaleString L (totalPixels result) @ [CHR 0x0A] @
     ''Different Pixels: '' @ toLocaleString L (differentPixels result) @ [CHR 0x0A] @
     ''Difference: '' @ toFixed2 (differencePercentage result) @ ''%'' @ [CHR 0x0A] @
     (case outputDiffPath of
        Some p \<Rightarrow> if p \<noteq> [] then [CHR 0x0A] @ ''Diff image saved to: '' @ p else []
      | None \<Rightarrow> [])"

text \<open>
  The handler registered for \<open>CallToolRequestSchema\<close>. The arguments are destructured
  before the \<open>try\<close> block, so a request without arguments throws there; the \<open>try\<close>
  block holds the call of \<open>compareScreenshots\<close> and the construction of the reply.
\<close>

definition handleCallTool ::
  "libs \<Rightarrow> filesystem \<Rightarrow> request \<Rightarrow> (error + response) \<times> filesystem" where
  "handleCallTool L fs request =
     (if name request = ''compare_design'' then
        (case arguments request of
           None \<Rightarrow>
             (Inl (TypeError ''Cannot destructure property 'design_path' of 'request.params.arguments' as it is undefined.''), fs)
         | Some a \<Rightarrow>
             let t = (case threshold a of None \<Rightarrow> 0.1 | Some v \<Rightarrow> v) in
             (case compareScreenshots L fs (design_path a) (implementation_path a)
                     (output_diff_path a) (Some t) of
                (Inr result, fs') \<Rightarrow>
                  (Inr \<lparr>content =
                          [TextContent (responseText L result (output_diff_path a))] @
                          (case diffImageBase64 result of
                             Some b \<Rightarrow> if b \<noteq> [] then [ImageContent b ''image/png''] else []
                           | None \<Rightarrow> []),
                        isError = False\<rparr>, fs')
              | (Inl e, fs') \<Rightarrow>
                  (Inr \<lparr>content = [TextContent (''Error comparing screenshots: '' @ message e)],
                        isError = True\<rparr>, fs')))
      else (Inl (Error (''Unknown tool: '' @ name request)), fs))"

section \<open>An environment for the examples\<close>

text \<open>
  The closed examples below need libraries that compute. These stand-ins take the place
  of \<open>pngjs\<close> and \<open>pixelmatch\<close> there: an image file is its width, its height and its
  pixels, and a pixel differs when the squared distance of its colour channels exceeds
  \<open>195075 * threshold\<^sup>2\<close> (identical buffers return 0 at once). A file of height 0 is
  refused; a file of width 0 and positive height loads as a raster without pixels. The
  theorems themselves hold for every value of \<open>libs\<close>.
\<close>

definition example_read :: "buffer \<Rightarrow> string + PNG" where
  "example_read d =
     (case d of
        w # h # px \<Rightarrow>
          if h \<noteq> 0 \<and> length px = 4 * unat w * unat h
          then Inr \<lparr>width = unat w, height = unat h, data = px\<rparr>
          else Inl ''Invalid file signature''
      | _ \<Rightarrow> Inl ''Invalid file signature'')"

definition example_write :: "PNG \<Rightarrow> string + buffer" where
  "example_write png = Inr (of_nat (width png) # of_nat (height png) # data png)"

definition channel_sq :: "byte \<Rightarrow> byte \<Rightarrow> nat" where
  "channel_sq x y =
     (let d = (if unat x \<le> unat y then unat y - unat x else unat x - unat y) in d * d)"

fun example_count :: "real \<Rightarrow> buffer \<Rightarrow> buffer \<Rightarrow> nat" where
  "example_count bound (r1 # g1 # b1 # a1 # p) (r2 # g2 # b2 # a2 # q) =
     (if bound < real (channel_sq r1 r2 + channel_sq g1 g2 + channel_sq b1 b2) then 1 else 0)
     + example_count bound p q"
| "example_count bound p q = 0"

definition example_pixelmatch ::
  "buffer \<Rightarrow> buffer \<Rightarrow> buffer \<Rightarrow> nat \<Rightarrow> nat \<Rightarrow> real \<Rightarrow> string + (nat \<times> buffer)" where
  "example_pixelmatch img1 img2 output w h t =
     (if length img1 = length img2 \<and> length output = length img1 then
        if length img1 = w * h * 4 then
          Inr (if img1 = img2 then 0 else example_count (195075 * t * t) img1 img2, output)
        else Inl ''Image data size does not match width/height.''
      else Inl ''Image sizes do not match.'')"

definition example_libs :: libs where
  "example_libs =
     \<lparr>PNG_sync_read = example_read,
      PNG_sync_write = example_write,
      pixelmatch = example_pixelmatch,
      toLocaleString = show_nat\<rparr>"

definition example_fs :: filesystem where
  "example_fs =
     \<lparr>files =
        [''/red.png'' \<mapsto> [1, 1, 255, 0, 0, 255],
         ''/rose.png'' \<mapsto> [1, 1, 250, 0, 0, 255],
         ''/blue.png'' \<mapsto> [1, 1, 0, 0, 255, 255],
         ''/design10.png'' \<mapsto> 10 # 10 # replicate 400 255,
         ''/implementation20.png'' \<mapsto> 20 # 20 # replicate 1600 255,
         ''/three-red.png'' \<mapsto> [3, 1, 255, 0, 0, 255, 255, 0, 0, 255, 255, 0, 0, 255],
         ''/one-blue.png'' \<mapsto> [3, 1, 0, 0, 255, 255, 255, 0, 0, 255, 255, 0, 0, 255],
         ''/zero-width.png'' \<mapsto> [0, 1],
         ''/not-an-image.txt'' \<mapsto> map of_char ''This is not an image file''],
      denied = {''/readonly/diff.png''}\<rparr>"

section \<open>Evaluating the examples\<close>

lemmas example_defs =
  example_libs_def example_fs_def example_read_def example_write_def
  example_pixelmatch_def channel_sq_def new_PNG_def

lemmas js_defs = js_div_def to_double_def normalize.simps round_even_def pow2_def

lemma replicate_12: "replicate 12 x = [x, x, x, x, x, x, x, x, x, x, x, x]"
  by (simp add: eval_nat_numeral)

lemma replicate_4: "replicate 4 x = [x, x, x, x]"
  by (simp add: eval_nat_numeral)

lemma show_nat_10_20: "show_nat 10 = ''10''" "show_nat 20 = ''20''"
  by (simp_all add: show_nat.simps digit_char_def)

lemma red_blue_saved:
  "compareScreenshots example_libs example_fs ''/red.png'' ''/blue.png'' (Some ''/diff.png'') None =
     (Inr \<lparr>totalPixels = 1, differentPixels = 1, differencePercentage = Finite 100,
           diffImageBase64 = None\<rparr>,
      example_fs\<lparr>files := (files example_fs)(''/diff.png'' \<mapsto> 1 # 1 # replicate 4 0)\<rparr>)"
  by (simp add: compareScreenshots_def loadPNG_def readFile_def writeFile_def js_defs example_defs)

lemma red_rose_minus1:
  "compareScreenshots example_libs example_fs ''/red.png'' ''/rose.png'' None (Some (- 1)) =
     (Inr \<lparr>totalPixels = 1, differentPixels = 0, differencePercentage = Finite 0,
           diffImageBase64 = Some ''AQEAAAAA''\<rparr>, example_fs)"
  by (simp add: compareScreenshots_def loadPNG_def readFile_def js_defs example_defs
        b64_char_def replicate_4)

lemma red_rose_0:
  "compareScreenshots example_libs example_fs ''/red.png'' ''/rose.png'' None (Some 0) =
     (Inr \<lparr>totalPixels = 1, differentPixels = 1, differencePercentage = Finite 100,
           diffImageBase64 = Some ''AQEAAAAA''\<rparr>, example_fs)"
  by (simp add: compareScreenshots_def loadPNG_def readFile_def js_defs example_defs
        b64_char_def replicate_4)

lemma red_blue_default:
  "compareScreenshots example_libs example_fs ''/red.png'' ''/blue.png'' None None =
     (Inr \<lparr>totalPixels = 1, differentPixels = 1, differencePercentage = Finite 100,
           diffImageBase64 = Some ''AQEAAAAA''\<rparr>, example_fs)"
  by (simp add: compareScreenshots_def loadPNG_def readFile_def js_defs example_defs
        b64_char_def replicate_4)

lemma one_blue_call:
  "compareScreenshots example_libs example_fs ''/three-red.png'' ''/one-blue.png'' None None =
     (Inr \<lparr>totalPixels = 3, differentPixels = 1,
           differencePercentage = Finite (2345624805922133 / 70368744177664),
           diffImageBase64 = Some ''AwEAAAAAAAAAAAAAAAA=''\<rparr>, example_fs)"
  by (simp add: compareScreenshots_def loadPNG_def readFile_def js_defs example_defs
        b64_char_def replicate_12)

lemma zero_width_call:
  "compareScreenshots example_libs example_fs ''/zero-width.png'' ''/zero-width.png'' None None =
     (Inr \<lparr>totalPixels = 0, differentPixels = 0, differencePercentage = NaN,
           diffImageBase64 = Some ''AAE=''\<rparr>, example_fs)"
  by (simp add: compareScreenshots_def loadPNG_def readFile_def js_defs example_defs
        b64_char_def)

text \<open>Seven of a hundred: the quotient and the product are both rounded.\<close>

lemma seven_percent: "js_times (js_div 7 100) 100 = Finite (7 + 1 / 2 ^ 50)"
  by (simp add: js_defs)

lemma red_missing:
  "compareScreenshots example_libs example_fs ''/red.png'' ''/non/existent/file.png'' None
     (Some 0.1) = (Inl (SystemError ENOENT ''/non/existent/file.png''), example_fs)"
  by (simp add: compareScreenshots_def loadPNG_def readFile_def example_defs)

lemma load_design10:
  "loadPNG example_libs example_fs ''/design10.png'' =
     Inr \<lparr>width = 10, height = 10, data = replicate 400 255\<rparr>"
  by (simp add: loadPNG_def readFile_def example_defs)

lemma load_implementation20:
  "loadPNG example_libs example_fs ''/implementation20.png'' =
     Inr \<lparr>width = 20, height = 20, data = replicate 1600 255\<rparr>"
  by (simp add: loadPNG_def readFile_def example_defs)

section \<open>The diff output of a result\<close>

text \<open>
  C1. A successful call returns an object with the three metrics and, only when no
  output path was given, \<open>diffImageBase64\<close>. The diff image is the new \<open>PNG\<close> of the
  common dimensions with the data that \<open>pixelmatch\<close> left in it, encoded by
  \<open>PNG.sync.write\<close>. With a non-empty output path that encoding is written to the path
  and the object has no diff-output field at all: the interface has no path field.
  Without an output path (\<open>undefined\<close> or the empty string) the object carries the
  base64 text of that encoding in \<open>diffImageBase64\<close> and no file is written.
\<close>

theorem exclusive_output:
  assumes "compareScreenshots L fs designPath implementationPath out thr = (Inr r, fs')"
  shows "\<exists>design implementation filled buffer.
           loadPNG L fs designPath = Inr design \<and>
           loadPNG L fs implementationPath = Inr implementation \<and>
           pixelmatch L (data design) (data implementation)
             (replicate (4 * width design * height design) 0) (width design) (height design)
             (case thr of None \<Rightarrow> 0.1 | Some t \<Rightarrow> t) = Inr (differentPixels r, filled) \<and>
           PNG_sync_write L \<lparr>width = width design, height = height design, data = filled\<rparr>
             = Inr buffer \<and>
           ((\<exists>p. out = Some p \<and> p \<noteq> [] \<and> p \<notin> denied fs \<and>
               result_keys r = [''totalPixels'', ''differentPixels'', ''differencePercentage''] \<and>
               diffImageBase64 r = None \<and>
               fs' = fs\<lparr>files := (files fs)(p \<mapsto> buffer)\<rparr>)
            \<or> ((out = None \<or> out = Some []) \<and>
               result_keys r =
                 [''totalPixels'', ''differentPixels'', ''differencePercentage'',
                  ''diffImageBase64''] \<and>
               diffImageBase64 r = Some (toString_base64 buffer) \<and>
               fs' = fs))"
  using assms
  by (auto simp: compareScreenshots_def Let_def result_keys_def writeFile_def new_PNG_def
           split: sum.splits option.splits if_splits prod.splits)

theorem exclusive_output_witness:
  "compareScreenshots example_libs example_fs ''/red.png'' ''/blue.png'' (Some ''/diff.png'') None =
     (Inr \<lparr>totalPixels = 1, differentPixels = 1, differencePercentage = Finite 100,
           diffImageBase64 = None\<rparr>,
      example_fs\<lparr>files := (files example_fs)(''/diff.png'' \<mapsto> 1 # 1 # replicate 4 0)\<rparr>)
   \<and> result_keys \<lparr>totalPixels = 1, differentPixels = 1, differencePercentage = Finite 100,
           diffImageBase64 = None\<rparr> = [''totalPixels'', ''differentPixels'', ''differencePercentage'']
   \<and> PNG_sync_write example_libs \<lparr>width = 1, height = 1, data = replicate 4 0\<rparr> =
       Inr (1 # 1 # replicate 4 0)
   \<and> ''/diff.png'' \<notin> denied example_fs"
  using exclusive_output [OF red_blue_saved] red_blue_saved
  by (simp add: result_keys_def example_libs_def example_write_def example_fs_def)

text \<open>
  With the output path \<open>/diff.png\<close> the call succeeds and the object returned has the
  three metrics only: neither a path field nor the base64 field.
\<close>

theorem exclusive_output_counterexample:
  "map_sum id result_keys
     (fst (compareScreenshots example_libs example_fs ''/red.png'' ''/blue.png''
             (Some ''/diff.png'') None))
   = Inr [''totalPixels'', ''differentPixels'', ''differencePercentage'']"
  by (simp add: red_blue_saved result_keys_def)

section \<open>Loading\<close>

text \<open>
  C2. Loading a path that names no file fails before any decoding, whatever the decoder
  is. The error is the rejection of \<open>fs.readFile\<close> as it is: \<open>loadPNG\<close> has no check of
  its own, and the message is the system's, not \<open>File not found\<close>.
\<close>

theorem loadPNG_missing_file:
  "loadPNG L example_fs ''/non/existent/file.png'' =
     Inl (SystemError ENOENT ''/non/existent/file.png'')
   \<and> message (SystemError ENOENT ''/non/existent/file.png'') =
     ''ENOENT: no such file or directory, open '' @ [CHR 0x27] @ ''/non/existent/file.png'' @ [CHR 0x27]
   \<and> \<not> sublist ''File not found'' (message (SystemError ENOENT ''/non/existent/file.png''))"
  by (simp add: loadPNG_def readFile_def example_fs_def sublist_code)

text \<open>
  C3. Loading a file that holds the text \<open>This is not an image file\<close> hands the bytes to
  \<open>PNG.sync.read\<close>, and the outcome is the decoder's: \<open>loadPNG\<close> inspects no signature
  and gives the failure no classification of its own.
\<close>

theorem loadPNG_not_an_image:
  "loadPNG L example_fs ''/not-an-image.txt'' =
     map_sum LibraryError id (PNG_sync_read L (map of_char ''This is not an image file''))"
  by (simp add: loadPNG_def readFile_def example_fs_def split: sum.splits)

section \<open>Dimensions\<close>

lemma loadPNG_pixelmatch_update [simp]:
  "loadPNG (L\<lparr>pixelmatch := pm\<rparr>) fs p = loadPNG L fs p"
  by (simp add: loadPNG_def split: sum.splits)

lemma sublist_dimension_message:
  "sublist (show_nat (width design) @ ''x'' @ show_nat (height design))
     (dimension_message design implementation)"
  "sublist (show_nat (width implementation) @ ''x'' @ show_nat (height implementation))
     (dimension_message design implementation)"
proof -
  let ?d = "show_nat (width design) @ ''x'' @ show_nat (height design)"
  let ?i = "show_nat (width implementation) @ ''x'' @ show_nat (height implementation)"
  have "dimension_message design implementation =
          ''Image dimensions don't match: design ('' @ ?d @ ('') vs implementation ('' @ ?i @ '')'')"
    by (simp add: dimension_message_def)
  then show "sublist ?d (dimension_message design implementation)"
    unfolding sublist_def by blast
  have "dimension_message design implementation =
          (''Image dimensions don't match: design ('' @ ?d @ '') vs implementation ('') @ ?i @ '')''"
    by (simp add: dimension_message_def)
  then show "sublist ?i (dimension_message design implementation)"
    unfolding sublist_def by blast
qed

text \<open>
  C4. When both files load and the rasters differ in width or in height, the call throws
  the error whose message holds \<open>WxH\<close> of the design and \<open>WxH\<close> of the implementation.
  The file system is unchanged and \<open>pixelmatch\<close> has no part in the outcome: the result
  is the same whatever function \<open>pm\<close> stands in its place.
\<close>

theorem dimension_mismatch:
  assumes "loadPNG L fs designPath = Inr design"
    and "loadPNG L fs implementationPath = Inr implementation"
    and "width design \<noteq> width implementation \<or> height design \<noteq> height implementation"
  shows "compareScreenshots (L\<lparr>pixelmatch := pm\<rparr>) fs designPath implementationPath out thr =
           (Inl (Error (dimension_message design implementation)), fs)
       \<and> sublist (show_nat (width design) @ ''x'' @ show_nat (height design))
           (dimension_message design implementation)
       \<and> sublist (show_nat (width implementation) @ ''x'' @ show_nat (height implementation))
           (dimension_message design implementation)"
proof -
  have "compareScreenshots (L\<lparr>pixelmatch := pm\<rparr>) fs designPath implementationPath out thr =
           (Inl (Error (dimension_message design implementation)), fs)"
    using assms by (auto simp: compareScreenshots_def Let_def)
  with sublist_dimension_message(1) sublist_dimension_message(2) show ?thesis
    by simp
qed

theorem dimension_mismatch_witness:
  "loadPNG example_libs example_fs ''/design10.png'' =
     Inr \<lparr>width = 10, height = 10, data = replicate 400 255\<rparr>
   \<and> loadPNG example_libs example_fs ''/implementation20.png'' =
     Inr \<lparr>width = 20, height = 20, data = replicate 1600 255\<rparr>
   \<and> compareScreenshots
       (example_libs\<lparr>pixelmatch := \<lambda>img1 img2 output w h t. Inl ''not called''\<rparr>) example_fs
       ''/design10.png'' ''/implementation20.png'' None None =
     (Inl (Error ''Image dimensions don't match: design (10x10) vs implementation (20x20)''),
      example_fs)
   \<and> sublist ''10x10'' ''Image dimensions don't match: design (10x10) vs implementation (20x20)''
   \<and> sublist ''20x20'' ''Image dimensions don't match: design (10x10) vs implementation (20x20)''"
  using dimension_mismatch [OF load_design10 load_implementation20,
      of "\<lambda>img1 img2 output w h t. Inl ''not called''" None None]
  by (simp add: load_design10 load_implementation20 dimension_message_def show_nat_10_20)

section \<open>The threshold\<close>

text \<open>
  C5. The program has no policy for the range of the threshold. Whatever value it is
  given, in range or not (\<open>0.1\<close> when there is none), reaches \<open>pixelmatch\<close> unchanged and
  is used nowhere else: the call behaves as a call with any other threshold \<open>thr'\<close> would
  with a \<open>pixelmatch\<close> fixed at that value. It is neither clamped nor rejected.
\<close>

theorem threshold_forwarded:
  "compareScreenshots L fs designPath implementationPath out thr =
   compareScreenshots
     (L\<lparr>pixelmatch :=
          \<lambda>img1 img2 output w h _.
            pixelmatch L img1 img2 output w h (case thr of None \<Rightarrow> 0.1 | Some t \<Rightarrow> t)\<rparr>)
     fs designPath implementationPath out thr'"
  by (simp add: compareScreenshots_def Let_def split: sum.splits option.splits prod.splits)

theorem threshold_forwarded_witness:
  "compareScreenshots
     (example_libs\<lparr>pixelmatch :=
          \<lambda>img1 img2 output w h _. example_pixelmatch img1 img2 output w h (- 1)\<rparr>)
     example_fs ''/red.png'' ''/rose.png'' None (Some 0) =
     (Inr \<lparr>totalPixels = 1, differentPixels = 0, differencePercentage = Finite 0,
           diffImageBase64 = Some ''AQEAAAAA''\<rparr>, example_fs)"
proof -
  have pm: "pixelmatch example_libs = example_pixelmatch"
    by (simp add: example_libs_def)
  have "compareScreenshots example_libs example_fs ''/red.png'' ''/rose.png'' None (Some (- 1)) =
        compareScreenshots
          (example_libs\<lparr>pixelmatch :=
             \<lambda>img1 img2 output w h _. example_pixelmatch img1 img2 output w h (- 1)\<rparr>)
          example_fs ''/red.png'' ''/rose.png'' None (Some 0)"
    using threshold_forwarded [of example_libs example_fs "''/red.png''" "''/rose.png''" None
        "Some (- 1)" "Some 0"]
    by (simp add: pm)
  from trans [OF this [symmetric] red_rose_minus1] show ?thesis .
qed

text \<open>
  The threshold \<open>-1\<close> is out of range. The call is not rejected, and its count differs
  from the count at the clamped value \<open>0\<close>.
\<close>

theorem threshold_policy_counterexample:
  "map_sum id differentPixels
     (fst (compareScreenshots example_libs example_fs ''/red.png'' ''/rose.png'' None (Some (- 1))))
     = Inr 0
   \<and> map_sum id differentPixels
     (fst (compareScreenshots example_libs example_fs ''/red.png'' ''/rose.png'' None (Some 0)))
     = Inr 1"
  by (simp add: red_rose_minus1 red_rose_0)

section \<open>The count and the percentage\<close>

text \<open>
  The count of a successful call is the number that \<open>pixelmatch\<close> returned for the two
  decoded buffers, a zero-filled output buffer, the common dimensions and the threshold;
  the total is width times height. The program does nothing else to either.
\<close>

lemma result_count_is_pixelmatch:
  assumes "compareScreenshots L fs designPath implementationPath out thr = (Inr r, fs')"
  shows "\<exists>design implementation filled.
           loadPNG L fs designPath = Inr design \<and>
           loadPNG L fs implementationPath = Inr implementation \<and>
           width design = width implementation \<and> height design = height implementation \<and>
           pixelmatch L (data design) (data implementation)
             (replicate (4 * width design * height design) 0) (width design) (height design)
             (case thr of None \<Rightarrow> 0.1 | Some t \<Rightarrow> t) = Inr (differentPixels r, filled) \<and>
           totalPixels r = width design * height design"
  using assms
  by (auto simp: compareScreenshots_def Let_def new_PNG_def
           split: sum.splits option.splits if_splits prod.splits)

text \<open>
  C6. For a successful call with a positive total, the percentage stored is the count
  divided by the total, times 100, as the program computes it: the quotient is rounded
  to a double, the product is rounded to a double, and nothing is rounded for display.
  The division has no guard: with a total of 0 the value stored is \<open>NaN\<close> (for
  \<open>0 / 0\<close>) or \<open>Infinity\<close>, never 0.
\<close>

theorem percentage_formula:
  assumes "compareScreenshots L fs designPath implementationPath out thr = (Inr r, fs')"
  shows "(0 < totalPixels r \<longrightarrow>
            differencePercentage r =
              js_times (to_double (real (differentPixels r) / real (totalPixels r))) 100)
       \<and> (totalPixels r = 0 \<longrightarrow>
            differencePercentage r = (if differentPixels r = 0 then NaN else Infinity))"
  using assms
  by (auto simp: compareScreenshots_def Let_def js_div_def
           split: sum.splits option.splits if_splits prod.splits)

theorem percentage_formula_witness:
  "compareScreenshots example_libs example_fs ''/three-red.png'' ''/one-blue.png'' None None =
     (Inr \<lparr>totalPixels = 3, differentPixels = 1,
           differencePercentage = Finite (2345624805922133 / 70368744177664),
           diffImageBase64 = Some ''AwEAAAAAAAAAAAAAAAA=''\<rparr>, example_fs)
   \<and> (0::nat) < 3
   \<and> js_times (to_double (real (1::nat) / real (3::nat))) 100 =
       Finite (2345624805922133 / 70368744177664)"
  using percentage_formula [OF one_blue_call] one_blue_call by simp

text \<open>
  Two rasters of width 0 and height 1: the call succeeds with a total of 0, and the
  percentage stored is \<open>NaN\<close>.
\<close>

theorem percentage_guard_counterexample:
  "map_sum id (\<lambda>r. (totalPixels r, differentPixels r, differencePercentage r))
     (fst (compareScreenshots example_libs example_fs
             ''/zero-width.png'' ''/zero-width.png'' None None))
   = Inr (0, 0, NaN)"
  by (simp add: zero_width_call)

section \<open>The handler\<close>

text \<open>
  C10. A request for a tool other than \<open>compare_design\<close> makes the handler throw
  \<open>Unknown tool: <name>\<close>; it returns no reply. A reply marked \<open>isError\<close> comes from
  one place only: \<open>compareScreenshots\<close> threw inside the \<open>compare_design\<close> branch, and
  the reply is the single text \<open>Error comparing screenshots: \<close> followed by the message
  of that error. Every such failure is turned into that reply.
\<close>

theorem unknown_tool_throws:
  "(name request \<noteq> ''compare_design'' \<longrightarrow>
      handleCallTool L fs request = (Inl (Error (''Unknown tool: '' @ name request)), fs))
   \<and> (\<forall>resp fs'. handleCallTool L fs request = (Inr resp, fs') \<and> isError resp \<longrightarrow>
        (\<exists>a e. name request = ''compare_design'' \<and> arguments request = Some a \<and>
           compareScreenshots L fs (design_path a) (implementation_path a) (output_diff_path a)
             (Some (case threshold a of None \<Rightarrow> 0.1 | Some v \<Rightarrow> v)) = (Inl e, fs') \<and>
           content resp = [TextContent (''Error comparing screenshots: '' @ message e)]))
   \<and> (\<forall>a e fs'. name request = ''compare_design'' \<and> arguments request = Some a \<and>
           compareScreenshots L fs (design_path a) (implementation_path a) (output_diff_path a)
             (Some (case threshold a of None \<Rightarrow> 0.1 | Some v \<Rightarrow> v)) = (Inl e, fs') \<longrightarrow>
        handleCallTool L fs request =
          (Inr \<lparr>content = [TextContent (''Error comparing screenshots: '' @ message e)],
                isError = True\<rparr>, fs'))"
  by (auto simp: handleCallTool_def Let_def split: option.splits sum.splits prod.splits if_splits)

theorem unknown_tool_throws_witness:
  "''resize_image'' \<noteq> ''compare_design''
   \<and> handleCallTool example_libs example_fs \<lparr>name = ''resize_image'', arguments = None\<rparr> =
       (Inl (Error ''Unknown tool: resize_image''), example_fs)
   \<and> compareScreenshots example_libs example_fs ''/red.png'' ''/non/existent/file.png'' None
       (Some 0.1) = (Inl (SystemError ENOENT ''/non/existent/file.png''), example_fs)
   \<and> handleCallTool example_libs example_fs
        \<lparr>name = ''compare_design'',
         arguments = Some \<lparr>design_path = ''/red.png'',
                           implementation_path = ''/non/existent/file.png'',
                           output_diff_path = None, threshold = None\<rparr>\<rparr> =
       (Inr \<lparr>content =
               [TextContent (''Error comparing screenshots: ENOENT: no such file or directory, open ''
                  @ [CHR 0x27] @ ''/non/existent/file.png'' @ [CHR 0x27])],
             isError = True\<rparr>, example_fs)"
  using
    unknown_tool_throws [where request = "\<lparr>name = ''resize_image'', arguments = None\<rparr>"
      and L = example_libs and fs = example_fs]
    unknown_tool_throws [where request =
        "\<lparr>name = ''compare_design'',
          arguments = Some \<lparr>design_path = ''/red.png'',
                            implementation_path = ''/non/existent/file.png'',
                            output_diff_path = None, threshold = None\<rparr>\<rparr>"
      and L = example_libs and fs = example_fs]
    red_missing
  by simp

end
